theory Spec2Isabelle
  imports Complex_Main
begin

section \<open>The quiz application: grading pipeline and grade distribution\<close>

text \<open>
  A shallow embedding of \<^verbatim>\<open>quizmaster/quiz/views.py\<close>: the analytics helpers
  \<^verbatim>\<open>calculate_grade_distribution\<close>, \<^verbatim>\<open>calculate_student_grade_distribution\<close>,
  \<^verbatim>\<open>calculate_quiz_specific_grade_distribution\<close> and the submission pipeline
  \<^verbatim>\<open>submit_quiz\<close>, \<^verbatim>\<open>parse_submission_data\<close>, \<^verbatim>\<open>get_quiz_attempt\<close>,
  \<^verbatim>\<open>process_quiz_submission\<close>, \<^verbatim>\<open>process_single_answer\<close>, \<^verbatim>\<open>finalize_attempt\<close>.

  Python's \<^verbatim>\<open>int\<close> is \<^typ>\<open>int\<close>. A Python float is idealised as an exact rational
  (\<^typ>\<open>rat\<close>) together with the three non-finite values; rounding of the binary
  representation is not modelled.
\<close>

subsection \<open>Rows of the relational store\<close>

text \<open>
  The model classes live in \<^verbatim>\<open>models.py\<close>; the records below carry the fields that
  \<^verbatim>\<open>views.py\<close> reads and writes. Primary and foreign keys are integers; the range of
  the database's integer columns is not modelled.
\<close>

datatype attempt_status = in_progress | completed

record Quiz =
  quiz_id :: int
  created_by :: int
  passing_marks :: int

record Question =
  question_id :: int
  question_quiz :: int
  marks :: int

record OptionRow =
  option_pk :: int
  option_question :: int
  is_correct :: bool

record QuizAttempt =
  attempt_id :: int
  student :: int
  attempt_quiz :: int
  status :: attempt_status
  score :: int
  max_score :: int
  total_marks :: int
  correct_answers :: int
  incorrect_answers :: int
  end_time :: "nat option"
  time_spent :: int
  percentage :: "rat option"
  passed :: bool

record StudentAnswer =
  sa_attempt :: int
  sa_question :: int
  selected_option :: int
  sa_is_correct :: bool

record db =
  quizzes :: "Quiz list"
  questions :: "Question list"
  options :: "OptionRow list"
  attempts :: "QuizAttempt list"
  student_answers :: "StudentAnswer list"

subsection \<open>Grade distribution\<close>

record grade_range =
  gr_label :: string
  gr_count :: nat
  gr_min :: int
  gr_max :: int

text \<open>
  The inner loop of the three distribution functions:
  \<^verbatim>\<open>for grade_range in grade_ranges: if min <= percentage <= max: count += 1; break\<close>.
  The first range that matches is incremented and the rest are left alone.
\<close>

fun count_in_first_range :: "rat \<Rightarrow> grade_range list \<Rightarrow> grade_range list" where
  "count_in_first_range p [] = []"
| "count_in_first_range p (r # rs) =
     (if of_int (gr_min r) \<le> p \<and> p \<le> of_int (gr_max r)
      then r\<lparr>gr_count := gr_count r + 1\<rparr> # rs
      else r # count_in_first_range p rs)"

text \<open>The outer loop: a percentage that is \<^verbatim>\<open>None\<close> is passed over.\<close>

fun count_percentages :: "rat option list \<Rightarrow> grade_range list \<Rightarrow> grade_range list" where
  "count_percentages [] rs = rs"
| "count_percentages (None # ps) rs = count_percentages ps rs"
| "count_percentages (Some p # ps) rs = count_percentages ps (count_in_first_range p rs)"

definition mk_range :: "string \<Rightarrow> int \<Rightarrow> int \<Rightarrow> grade_range" where
  "mk_range l lo hi = \<lparr>gr_label = l, gr_count = 0, gr_min = lo, gr_max = hi\<rparr>"

definition labelled_counts :: "grade_range list \<Rightarrow> (string \<times> nat) list" where
  "labelled_counts rs = map (\<lambda>r. (gr_label r, gr_count r)) rs"

text \<open>\<^verbatim>\<open>calculate_grade_distribution(teacher)\<close>: completed attempts on the teacher's quizzes.\<close>

definition teacher_percentages :: "db \<Rightarrow> int \<Rightarrow> rat option list" where
  "teacher_percentages d teacher =
     map percentage
       (filter (\<lambda>a. (\<exists>q \<in> set (quizzes d). quiz_id q = attempt_quiz a \<and> created_by q = teacher)
                     \<and> status a = completed)
          (attempts d))"

definition calculate_grade_distribution :: "db \<Rightarrow> int \<Rightarrow> (string \<times> nat) list" where
  "calculate_grade_distribution d teacher =
     (let all_attempts = teacher_percentages d teacher;
          grade_ranges =
            [mk_range ''90-100'' 90 100,
             mk_range ''80-89'' 80 89,
             mk_range ''70-79'' 70 79,
             mk_range ''60-69'' 60 69,
             mk_range ''50-59'' 50 59,
             mk_range ''0-49'' 0 49]
      in labelled_counts (count_percentages all_attempts grade_ranges))"

text \<open>\<^verbatim>\<open>calculate_student_grade_distribution(user)\<close>: the student's completed attempts.\<close>

definition student_percentages :: "db \<Rightarrow> int \<Rightarrow> rat option list" where
  "student_percentages d user =
     map percentage (filter (\<lambda>a. student a = user \<and> status a = completed) (attempts d))"

definition calculate_student_grade_distribution :: "db \<Rightarrow> int \<Rightarrow> (string \<times> nat) list" where
  "calculate_student_grade_distribution d user =
     (let student_attempts = student_percentages d user;
          grade_ranges =
            [mk_range ''90-100'' 90 100,
             mk_range ''80-89'' 80 89,
             mk_range ''70-79'' 70 79,
             mk_range ''60-69'' 60 69,
             mk_range ''50-59'' 50 59,
             mk_range ''0-49'' 0 49]
      in labelled_counts (count_percentages student_attempts grade_ranges))"

text \<open>
  \<^verbatim>\<open>calculate_quiz_specific_grade_distribution(attempts)\<close>: the caller passes the
  attempts it selected.
\<close>

definition calculate_quiz_specific_grade_distribution :: "QuizAttempt list \<Rightarrow> (string \<times> nat) list" where
  "calculate_quiz_specific_grade_distribution atts =
     (let percentages = map percentage atts;
          grade_ranges =
            [mk_range ''90-100'' 90 100,
             mk_range ''80-89'' 80 89,
             mk_range ''70-79'' 70 79,
             mk_range ''60-69'' 60 69,
             mk_range ''50-59'' 50 59,
             mk_range ''0-49'' 0 49]
      in labelled_counts (count_percentages percentages grade_ranges))"

subsection \<open>Decoded JSON and Python's \<^verbatim>\<open>int()\<close>\<close>

text \<open>
  What \<^verbatim>\<open>json.loads\<close> returns. A decoded object is a \<^verbatim>\<open>dict\<close>: an association list
  in insertion order whose keys are pairwise distinct strings. The decoder maps a number
  with a fraction or an exponent to a float, and a literal that overflows (such as
  \<^verbatim>\<open>1e999\<close>) or the constants \<^verbatim>\<open>Infinity\<close>, \<^verbatim>\<open>-Infinity\<close>, \<^verbatim>\<open>NaN\<close> to the
  non-finite floats.
\<close>

datatype py_float = Finite rat | PosInf | NegInf | NaN

datatype json =
    JNull
  | JBool bool
  | JInt int
  | JFloat py_float
  | JString string
  | JArray "json list"
  | JObject "(string \<times> json) list"

datatype error =
    JSONDecodeError
  | UnicodeDecodeError
  | ValueError
  | TypeError
  | OverflowError
  | AttributeError
  | QuestionDoesNotExist
  | OptionDoesNotExist
  | MultipleObjectsReturned
  | Http404

text \<open>
  \<^verbatim>\<open>int(s)\<close> for a string: surrounding whitespace is stripped, one sign is allowed,
  then decimal digits, where single underscores may separate digits. Anything else is a
  \<^verbatim>\<open>ValueError\<close>. Only ASCII whitespace and digits are covered.
\<close>

definition is_py_space :: "char \<Rightarrow> bool" where
  "is_py_space c =
     (c \<in> set [CHR '' '', CHR 0x09, CHR 0x0A, CHR 0x0B, CHR 0x0C, CHR 0x0D,
                CHR 0x1C, CHR 0x1D, CHR 0x1E, CHR 0x1F])"

definition py_strip :: "string \<Rightarrow> string" where
  "py_strip s = rev (dropWhile is_py_space (rev (dropWhile is_py_space s)))"

definition is_py_digit :: "char \<Rightarrow> bool" where
  "is_py_digit c = (48 \<le> (of_char c :: nat) \<and> (of_char c :: nat) \<le> 57)"

definition digit_value :: "char \<Rightarrow> nat" where
  "digit_value c = (of_char c :: nat) - 48"

fun digits_value :: "nat \<Rightarrow> bool \<Rightarrow> string \<Rightarrow> nat option" where
  "digits_value acc prev_digit [] = (if prev_digit then Some acc else None)"
| "digits_value acc prev_digit (c # cs) =
     (if is_py_digit c then digits_value (acc * 10 + digit_value c) True cs
      else if c = CHR ''_'' \<and> prev_digit then digits_value acc False cs
      else None)"

definition int_of_string :: "string \<Rightarrow> int option" where
  "int_of_string s =
     (case py_strip s of
        [] \<Rightarrow> None
      | c # cs \<Rightarrow>
          if c = CHR ''-'' then map_option (\<lambda>n. - int n) (digits_value 0 False cs)
          else if c = CHR ''+'' then map_option int (digits_value 0 False cs)
          else map_option int (digits_value 0 False (c # cs)))"

text \<open>\<^verbatim>\<open>int(x)\<close> for a float truncates towards zero.\<close>

definition py_trunc :: "rat \<Rightarrow> int" where
  "py_trunc r = (if 0 \<le> r then \<lfloor>r\<rfloor> else \<lceil>r\<rceil>)"

fun py_int :: "json \<Rightarrow> error + int" where
  "py_int JNull = Inl TypeError"
| "py_int (JBool b) = Inr (if b then 1 else 0)"
| "py_int (JInt n) = Inr n"
| "py_int (JFloat (Finite r)) = Inr (py_trunc r)"
| "py_int (JFloat PosInf) = Inl OverflowError"
| "py_int (JFloat NegInf) = Inl OverflowError"
| "py_int (JFloat NaN) = Inl ValueError"
| "py_int (JString s) = (case int_of_string s of None \<Rightarrow> Inl ValueError | Some n \<Rightarrow> Inr n)"
| "py_int (JArray xs) = Inl TypeError"
| "py_int (JObject kvs) = Inl TypeError"

text \<open>\<^verbatim>\<open>len(x)\<close> and \<^verbatim>\<open>x.items()\<close> on a decoded value.\<close>

fun py_len :: "json \<Rightarrow> error + nat" where
  "py_len (JString s) = Inr (length s)"
| "py_len (JArray xs) = Inr (length xs)"
| "py_len (JObject kvs) = Inr (length kvs)"
| "py_len _ = Inl TypeError"

fun py_items :: "json \<Rightarrow> error + (string \<times> json) list" where
  "py_items (JObject kvs) = Inr kvs"
| "py_items _ = Inl AttributeError"

text \<open>\<^verbatim>\<open>d.get(key, default)\<close>; every decoded value but a dict has no \<^verbatim>\<open>get\<close>.\<close>

fun py_get :: "json \<Rightarrow> string \<Rightarrow> json \<Rightarrow> error + json" where
  "py_get (JObject kvs) k dflt = Inr (case map_of kvs k of None \<Rightarrow> dflt | Some v \<Rightarrow> v)"
| "py_get _ k dflt = Inl AttributeError"

text \<open>\<^verbatim>\<open>round(x, 2)\<close>, to the nearest hundredth, ties to the even neighbour.\<close>

definition py_round2 :: "rat \<Rightarrow> rat" where
  "py_round2 x =
     (let y = x * 100; f = \<lfloor>y\<rfloor>; frac = y - of_int f
      in of_int (if frac < 1 / 2 then f
                 else if 1 / 2 < frac then f + 1
                 else if even f then f else f + 1) / 100)"

subsection \<open>The object-relational layer\<close>

text \<open>
  \<^verbatim>\<open>Model.objects.get(...)\<close>: the single row that matches, \<^verbatim>\<open>DoesNotExist\<close> of the
  model when none does, \<^verbatim>\<open>MultipleObjectsReturned\<close> when several do.
\<close>

definition objects_get :: "('a \<Rightarrow> bool) \<Rightarrow> 'a list \<Rightarrow> error \<Rightarrow> error + 'a" where
  "objects_get P rows does_not_exist =
     (case filter P rows of
        [] \<Rightarrow> Inl does_not_exist
      | [x] \<Rightarrow> Inr x
      | _ \<Rightarrow> Inl MultipleObjectsReturned)"

text \<open>\<^verbatim>\<open>get_object_or_404(Quiz, id=quiz_id)\<close>.\<close>

definition get_object_or_404 :: "Quiz list \<Rightarrow> int \<Rightarrow> error + Quiz" where
  "get_object_or_404 rows qid = objects_get (\<lambda>q. quiz_id q = qid) rows Http404"

text \<open>
  \<^verbatim>\<open>StudentAnswer.objects.update_or_create(attempt=, question=, defaults=)\<close>: looks the
  row up by (attempt, question) with \<^verbatim>\<open>get\<close>; creates it when there is none, updates
  the defaults of the one found otherwise.
\<close>

definition sa_key :: "StudentAnswer \<Rightarrow> int \<times> int" where
  "sa_key s = (sa_attempt s, sa_question s)"

definition update_or_create ::
  "StudentAnswer list \<Rightarrow> int \<Rightarrow> int \<Rightarrow> int \<Rightarrow> bool \<Rightarrow> error + StudentAnswer list" where
  "update_or_create rows att q sel corr =
     (case filter (\<lambda>s. sa_key s = (att, q)) rows of
        [] \<Rightarrow> Inr (rows @ [\<lparr>sa_attempt = att, sa_question = q,
                             selected_option = sel, sa_is_correct = corr\<rparr>])
      | [x] \<Rightarrow> Inr (map (\<lambda>s. if sa_key s = (att, q)
                              then s\<lparr>selected_option := sel, sa_is_correct := corr\<rparr>
                              else s) rows)
      | _ \<Rightarrow> Inl MultipleObjectsReturned)"

text \<open>\<^verbatim>\<open>attempt.save()\<close>: the row with the attempt's primary key is replaced (inserted if absent).\<close>

definition save_attempt :: "QuizAttempt \<Rightarrow> QuizAttempt list \<Rightarrow> QuizAttempt list" where
  "save_attempt a rows =
     (if \<exists>b \<in> set rows. attempt_id b = attempt_id a
      then map (\<lambda>b. if attempt_id b = attempt_id a then a else b) rows
      else rows @ [a])"

text \<open>\<^verbatim>\<open>queryset.first()\<close> on an unordered queryset: the match with the least primary key.\<close>

fun first_by_pk :: "QuizAttempt list \<Rightarrow> QuizAttempt option" where
  "first_by_pk [] = None"
| "first_by_pk (a # as) =
     Some (fold (\<lambda>b best. if attempt_id b < attempt_id best then b else best) as a)"

text \<open>
  \<^verbatim>\<open>with transaction.atomic(): body\<close>: when the body raises, the writes it made are
  rolled back and the exception propagates; otherwise they are committed.
\<close>

definition transaction_atomic :: "(db \<Rightarrow> error + db \<times> 'a) \<Rightarrow> db \<Rightarrow> (error + 'a) \<times> db" where
  "transaction_atomic body d =
     (case body d of
        Inl e \<Rightarrow> (Inl e, d)
      | Inr (d', r) \<Rightarrow> (Inr r, d'))"

subsection \<open>The submission pipeline\<close>

record submission_data =
  sd_answers :: json
  sd_time_spent :: json

text \<open>
  A request carries the logged-in user and a body; \<open>body\<close> is what
  \<^verbatim>\<open>json.loads(request.body)\<close> yields: the decoded value or the exception raised.
\<close>

record request =
  user :: int
  body :: "error + json"

text \<open>
  \<^verbatim>\<open>parse_submission_data\<close>: only \<^verbatim>\<open>json.JSONDecodeError\<close> is caught and turned into
  \<^verbatim>\<open>None\<close>; any other exception leaves the function.
\<close>

definition parse_submission_data :: "request \<Rightarrow> error + submission_data option" where
  "parse_submission_data req =
     (case body req of
        Inl e \<Rightarrow> (if e = JSONDecodeError then Inr None else Inl e)
      | Inr data \<Rightarrow>
          (case py_get data ''answers'' (JObject []) of
             Inl e \<Rightarrow> Inl e
           | Inr a \<Rightarrow>
               (case py_get data ''time_spent'' (JInt 0) of
                  Inl e \<Rightarrow> Inl e
                | Inr t \<Rightarrow> Inr (Some \<lparr>sd_answers = a, sd_time_spent = t\<rparr>))))"

definition get_quiz_attempt :: "db \<Rightarrow> int \<Rightarrow> Quiz \<Rightarrow> QuizAttempt option" where
  "get_quiz_attempt d usr quiz =
     first_by_pk (filter (\<lambda>a. student a = usr \<and> attempt_quiz a = quiz_id quiz
                              \<and> status a = in_progress) (attempts d))"

record answer_result =
  ar_score :: int
  ar_max_score :: int
  ar_correct :: bool

definition process_single_answer ::
  "db \<Rightarrow> QuizAttempt \<Rightarrow> Quiz \<Rightarrow> string \<Rightarrow> json \<Rightarrow> error + db \<times> answer_result" where
  "process_single_answer d attempt quiz question_id_str option_id =
     (case py_int (JString question_id_str) of
        Inl e \<Rightarrow> Inl e
      | Inr qid \<Rightarrow>
     (case objects_get (\<lambda>q. question_id q = qid \<and> question_quiz q = quiz_id quiz)
             (questions d) QuestionDoesNotExist of
        Inl e \<Rightarrow> Inl e
      | Inr question \<Rightarrow>
     (case py_int option_id of
        Inl e \<Rightarrow> Inl e
      | Inr oid \<Rightarrow>
     (case objects_get (\<lambda>opt. option_pk opt = oid \<and> option_question opt = question_id question)
             (options d) OptionDoesNotExist of
        Inl e \<Rightarrow> Inl e
      | Inr selected \<Rightarrow>
     (case update_or_create (student_answers d) (attempt_id attempt) (question_id question)
             (option_pk selected) (is_correct selected) of
        Inl e \<Rightarrow> Inl e
      | Inr rows \<Rightarrow>
          Inr (d\<lparr>student_answers := rows\<rparr>,
               \<lparr>ar_score = (if is_correct selected then marks question else 0),
                ar_max_score = marks question,
                ar_correct = is_correct selected\<rparr>))))))"

record tally =
  total_score :: int
  tl_max_score :: int
  correct_count :: int
  incorrect_count :: int

text \<open>
  The exceptions the loop body catches:
  \<^verbatim>\<open>except (ValueError, TypeError)\<close> and
  \<^verbatim>\<open>except (Question.DoesNotExist, Option.DoesNotExist)\<close>; both \<^verbatim>\<open>continue\<close>.
\<close>

definition tolerated :: "error \<Rightarrow> bool" where
  "tolerated e = (e = ValueError \<or> e = TypeError \<or> e = QuestionDoesNotExist \<or> e = OptionDoesNotExist)"

definition add_result :: "answer_result \<Rightarrow> tally \<Rightarrow> tally" where
  "add_result r t =
     \<lparr>total_score = total_score t + ar_score r,
      tl_max_score = tl_max_score t + ar_max_score r,
      correct_count = (if ar_correct r then correct_count t + 1 else correct_count t),
      incorrect_count = (if ar_correct r then incorrect_count t else incorrect_count t + 1)\<rparr>"

text \<open>\<^verbatim>\<open>for question_id_str, option_id in answers.items(): ...\<close>\<close>

fun answers_loop ::
  "QuizAttempt \<Rightarrow> Quiz \<Rightarrow> (string \<times> json) list \<Rightarrow> db \<Rightarrow> tally \<Rightarrow> error + db \<times> tally" where
  "answers_loop attempt quiz [] d t = Inr (d, t)"
| "answers_loop attempt quiz ((question_id_str, option_id) # rest) d t =
     (case process_single_answer d attempt quiz question_id_str option_id of
        Inr (d', r) \<Rightarrow> answers_loop attempt quiz rest d' (add_result r t)
      | Inl e \<Rightarrow> if tolerated e then answers_loop attempt quiz rest d t else Inl e)"

record submit_result =
  sr_attempt_id :: int
  sr_score :: int
  sr_max_score :: int
  sr_percentage :: rat
  sr_passed :: bool

definition finalize_attempt ::
  "nat \<Rightarrow> QuizAttempt \<Rightarrow> Quiz \<Rightarrow> int \<Rightarrow> int \<Rightarrow> int \<Rightarrow> int \<Rightarrow> json \<Rightarrow> db
     \<Rightarrow> error + db \<times> QuizAttempt \<times> submit_result" where
  "finalize_attempt now attempt quiz total_sc max_sc correct_cnt incorrect_cnt time_sp d =
     (case py_int time_sp of
        Inl e \<Rightarrow> Inl e
      | Inr secs \<Rightarrow>
          (let a1 = attempt\<lparr>score := total_sc, max_score := max_sc, total_marks := max_sc,
                            correct_answers := correct_cnt, incorrect_answers := incorrect_cnt,
                            end_time := Some now, time_spent := secs\<rparr>;
               a2 = (if 0 < max_sc
                     then a1\<lparr>percentage := Some (of_int total_sc / of_int max_sc * 100),
                             passed := (passing_marks quiz \<le> total_sc)\<rparr>
                     else a1\<lparr>percentage := Some 0, passed := False\<rparr>);
               a3 = a2\<lparr>status := completed\<rparr>
           in Inr (d\<lparr>attempts := save_attempt a3 (attempts d)\<rparr>,
                   a3,
                   \<lparr>sr_attempt_id = attempt_id a3,
                    sr_score = score a3,
                    sr_max_score = max_score a3,
                    sr_percentage = py_round2 (the (percentage a3)),
                    sr_passed = passed a3\<rparr>)))"

text \<open>
  \<^verbatim>\<open>process_quiz_submission\<close>: \<^verbatim>\<open>len(answers)\<close> is evaluated for the log line before
  the transaction opens; the loop and the finalisation run inside it.
\<close>

definition process_quiz_submission ::
  "nat \<Rightarrow> QuizAttempt \<Rightarrow> Quiz \<Rightarrow> submission_data \<Rightarrow> db \<Rightarrow> (error + QuizAttempt \<times> submit_result) \<times> db" where
  "process_quiz_submission now attempt quiz data d =
     (let answers = sd_answers data; time_sp = sd_time_spent data
      in case py_len answers of
           Inl e \<Rightarrow> (Inl e, d)
         | Inr n \<Rightarrow>
             transaction_atomic
               (\<lambda>d0. case py_items answers of
                        Inl e \<Rightarrow> Inl e
                      | Inr items \<Rightarrow>
                          (case answers_loop attempt quiz items d0
                                  \<lparr>total_score = 0, tl_max_score = 0,
                                   correct_count = 0, incorrect_count = 0\<rparr> of
                             Inl e \<Rightarrow> Inl e
                           | Inr (d1, t) \<Rightarrow>
                               finalize_attempt now attempt quiz (total_score t) (tl_max_score t)
                                 (correct_count t) (incorrect_count t) time_sp d1))
               d)"

datatype failure = Invalid_request | Quiz_attempt_not_found | An_error_occurred error

datatype response =
    JsonSuccess nat submit_result
  | JsonFailure nat failure

text \<open>
  \<^verbatim>\<open>submit_quiz\<close>: the whole body is inside \<^verbatim>\<open>try: ... except Exception\<close>, which answers
  with status 500 and the exception's text.
\<close>

definition submit_quiz :: "nat \<Rightarrow> request \<Rightarrow> int \<Rightarrow> db \<Rightarrow> response \<times> db" where
  "submit_quiz now req qid d =
     (case parse_submission_data req of
        Inl e \<Rightarrow> (JsonFailure 500 (An_error_occurred e), d)
      | Inr None \<Rightarrow> (JsonFailure 400 Invalid_request, d)
      | Inr (Some data) \<Rightarrow>
     (case get_object_or_404 (quizzes d) qid of
        Inl e \<Rightarrow> (JsonFailure 500 (An_error_occurred e), d)
      | Inr quiz \<Rightarrow>
     (case get_quiz_attempt d (user req) quiz of
        None \<Rightarrow> (JsonFailure 400 Quiz_attempt_not_found, d)
      | Some attempt \<Rightarrow>
     (case process_quiz_submission now attempt quiz data d of
        (Inl e, d') \<Rightarrow> (JsonFailure 500 (An_error_occurred e), d')
      | (Inr (a, result), d') \<Rightarrow> (JsonSuccess 200 result, d')))))"


subsection \<open>Example data\<close>

text \<open>
  One quiz (id 1, by teacher 7, passing marks 6) with two questions of 5 marks each, a
  question of another quiz, and one attempt of student 42 that is in progress.
\<close>

definition ex_attempt :: QuizAttempt where
  "ex_attempt =
     \<lparr>attempt_id = 100, student = 42, attempt_quiz = 1, status = in_progress,
      score = 0, max_score = 0, total_marks = 0, correct_answers = 0, incorrect_answers = 0,
      end_time = None, time_spent = 0, percentage = None, passed = False\<rparr>"

definition ex_quiz :: Quiz where
  "ex_quiz = \<lparr>quiz_id = 1, created_by = 7, passing_marks = 6\<rparr>"

definition ex_db :: db where
  "ex_db =
     \<lparr>quizzes = [ex_quiz],
      questions = [\<lparr>question_id = 1, question_quiz = 1, marks = 5\<rparr>,
                   \<lparr>question_id = 2, question_quiz = 1, marks = 5\<rparr>,
                   \<lparr>question_id = 3, question_quiz = 2, marks = 4\<rparr>],
      options = [\<lparr>option_pk = 10, option_question = 1, is_correct = True\<rparr>,
                 \<lparr>option_pk = 11, option_question = 1, is_correct = False\<rparr>,
                 \<lparr>option_pk = 20, option_question = 2, is_correct = True\<rparr>,
                 \<lparr>option_pk = 21, option_question = 2, is_correct = False\<rparr>,
                 \<lparr>option_pk = 30, option_question = 3, is_correct = True\<rparr>],
      attempts = [ex_attempt],
      student_answers = []\<rparr>"

definition ex_request :: "json \<Rightarrow> request" where
  "ex_request j = \<lparr>user = 42, body = Inr j\<rparr>"

text \<open>The same store after the attempt was completed with the given score out of the given maximum.\<close>

definition ex_completed :: "int \<Rightarrow> int \<Rightarrow> QuizAttempt" where
  "ex_completed sc mx =
     ex_attempt\<lparr>status := completed, score := sc, max_score := mx, total_marks := mx,
                 percentage := Some (of_int sc / of_int mx * 100)\<rparr>"

definition ex_db_completed :: "int \<Rightarrow> int \<Rightarrow> db" where
  "ex_db_completed sc mx = ex_db\<lparr>attempts := [ex_completed sc mx]\<rparr>"

definition ex_overflow_answers :: json where
  "ex_overflow_answers = JObject [(''1'', JString ''10''), (''2'', JFloat PosInf)]"



text \<open>
  Further requests of student 42: one that names question 1 under two keys with the same
  option, one whose option for question 1 is the float infinity (the body \<^verbatim>\<open>{"answers": {"1": 1e999}}\<close>),
  one that reports a negative duration, and one without answers whose duration is not a
  number.
\<close>

definition ex_aliased :: request where
  "ex_aliased =
     ex_request (JObject [(''answers'', JObject [(''1'', JString ''10''), (''01'', JString ''10'')]),
                          (''time_spent'', JInt 30)])"

definition ex_infinite_option :: request where
  "ex_infinite_option =
     ex_request (JObject [(''answers'', JObject [(''1'', JFloat PosInf)]),
                          (''time_spent'', JInt 30)])"

definition ex_negative_time :: request where
  "ex_negative_time =
     ex_request (JObject [(''answers'', JObject [(''1'', JString ''10'')]),
                          (''time_spent'', JInt (- 5))])"

definition ex_bad_time :: request where
  "ex_bad_time = ex_request (JObject [(''time_spent'', JString ''abc'')])"

subsection \<open>Predicates used in the statements\<close>


text \<open>The row that an upsert leaves for its key.\<close>

definition upserted :: "int \<Rightarrow> int \<Rightarrow> int \<Rightarrow> bool \<Rightarrow> StudentAnswer" where
  "upserted a q sel c =
     \<lparr>sa_attempt = a, sa_question = q, selected_option = sel, sa_is_correct = c\<rparr>"

text \<open>At most one answer per (attempt, question).\<close>

definition keys_unique :: "db \<Rightarrow> bool" where
  "keys_unique d = distinct (map sa_key (student_answers d))"

definition answers_for :: "db \<Rightarrow> int \<Rightarrow> int \<Rightarrow> StudentAnswer list" where
  "answers_for d a q = filter (\<lambda>s. sa_key s = (a, q)) (student_answers d)"

text \<open>
  The two lookups of \<^verbatim>\<open>process_single_answer\<close> on their own, and the dictionary it
  returns for the question and option found. \<open>process_single_answer_resolve\<close> below
  relates them to the function.
\<close>

definition resolve_entry :: "db \<Rightarrow> Quiz \<Rightarrow> string \<Rightarrow> json \<Rightarrow> error + Question \<times> OptionRow" where
  "resolve_entry d quiz question_id_str option_id =
     (case py_int (JString question_id_str) of
        Inl e \<Rightarrow> Inl e
      | Inr qid \<Rightarrow>
     (case objects_get (\<lambda>q. question_id q = qid \<and> question_quiz q = quiz_id quiz)
             (questions d) QuestionDoesNotExist of
        Inl e \<Rightarrow> Inl e
      | Inr question \<Rightarrow>
     (case py_int option_id of
        Inl e \<Rightarrow> Inl e
      | Inr oid \<Rightarrow>
     (case objects_get (\<lambda>opt. option_pk opt = oid \<and> option_question opt = question_id question)
             (options d) OptionDoesNotExist of
        Inl e \<Rightarrow> Inl e
      | Inr selected \<Rightarrow> Inr (question, selected)))))"

definition graded :: "Question \<Rightarrow> OptionRow \<Rightarrow> answer_result" where
  "graded question selected =
     \<lparr>ar_score = (if is_correct selected then marks question else 0),
      ar_max_score = marks question,
      ar_correct = is_correct selected\<rparr>"


text \<open>
  What one entry of the answers contributes: the result of grading it when both lookups
  succeed, nothing otherwise.
\<close>

definition entry_result :: "db \<Rightarrow> Quiz \<Rightarrow> string \<times> json \<Rightarrow> answer_result option" where
  "entry_result d quiz kv =
     (case resolve_entry d quiz (fst kv) (snd kv) of
        Inl e \<Rightarrow> None
      | Inr (question, selected) \<Rightarrow> Some (graded question selected))"

definition entry_max :: "db \<Rightarrow> Quiz \<Rightarrow> string \<times> json \<Rightarrow> int" where
  "entry_max d quiz kv = (case entry_result d quiz kv of None \<Rightarrow> 0 | Some r \<Rightarrow> ar_max_score r)"

definition entry_score :: "db \<Rightarrow> Quiz \<Rightarrow> string \<times> json \<Rightarrow> int" where
  "entry_score d quiz kv = (case entry_result d quiz kv of None \<Rightarrow> 0 | Some r \<Rightarrow> ar_score r)"

section \<open>Properties\<close>

lemmas py_int_simps = int_of_string_def py_strip_def is_py_space_def is_py_digit_def
  digit_value_def py_trunc_def

lemmas ex_simps = ex_db_def ex_attempt_def ex_quiz_def ex_request_def ex_completed_def
  ex_db_completed_def

lemmas orm_simps = objects_get_def get_object_or_404_def update_or_create_def sa_key_def
  save_attempt_def get_quiz_attempt_def transaction_atomic_def

lemmas pipeline_simps = parse_submission_data_def process_single_answer_def tolerated_def
  add_result_def finalize_attempt_def process_quiz_submission_def submit_quiz_def
  py_round2_def Let_def

subsection \<open>Grade distribution\<close>

lemma labels_count_in_first_range:
  "map gr_label (count_in_first_range p rs) = map gr_label rs"
  by (induction rs) auto

lemma labels_count_percentages:
  "map gr_label (count_percentages ps rs) = map gr_label rs"
  by (induction ps rs rule: count_percentages.induct) (auto simp: labels_count_in_first_range)

text \<open>
  C9. The teacher-wide, the student-wide and the quiz-specific grade distribution compute
  the same result from the same collection of percentage values, and the result always
  is the list of the six labels, each with its count.
\<close>

theorem grade_distributions_agree:
  assumes "teacher_percentages d teacher = ps"
    and "student_percentages d' usr = ps"
    and "map percentage atts = ps"
  shows "calculate_grade_distribution d teacher = calculate_student_grade_distribution d' usr
       \<and> calculate_student_grade_distribution d' usr = calculate_quiz_specific_grade_distribution atts
       \<and> map fst (calculate_quiz_specific_grade_distribution atts) =
           [''90-100'', ''80-89'', ''70-79'', ''60-69'', ''50-59'', ''0-49'']"
proof -
  have shape: "map fst (labelled_counts (count_percentages ps rs)) = map gr_label rs" for rs
    using labels_count_percentages [of ps rs] by (simp add: labelled_counts_def comp_def)
  show ?thesis
    using assms
    by (simp add: calculate_grade_distribution_def calculate_student_grade_distribution_def
        calculate_quiz_specific_grade_distribution_def Let_def shape mk_range_def)
qed

theorem grade_distributions_agree_witness:
  "teacher_percentages (ex_db_completed 5 10) 7 = [Some 50]
   \<and> student_percentages (ex_db_completed 5 10) 42 = [Some 50]
   \<and> map percentage [ex_completed 5 10] = [Some 50]
   \<and> calculate_grade_distribution (ex_db_completed 5 10) 7 =
       calculate_student_grade_distribution (ex_db_completed 5 10) 42
   \<and> calculate_student_grade_distribution (ex_db_completed 5 10) 42 =
       calculate_quiz_specific_grade_distribution [ex_completed 5 10]
   \<and> calculate_quiz_specific_grade_distribution [ex_completed 5 10] =
       [(''90-100'', 0), (''80-89'', 0), (''70-79'', 0), (''60-69'', 0), (''50-59'', 1), (''0-49'', 0)]"
proof -
  have t: "teacher_percentages (ex_db_completed 5 10) 7 = [Some 50]"
    by (simp add: teacher_percentages_def ex_simps)
  have s: "student_percentages (ex_db_completed 5 10) 42 = [Some 50]"
    by (simp add: student_percentages_def ex_simps)
  have q: "map percentage [ex_completed 5 10] = [Some 50]"
    by (simp add: ex_simps)
  have v: "calculate_quiz_specific_grade_distribution [ex_completed 5 10] =
       [(''90-100'', 0), (''80-89'', 0), (''70-79'', 0), (''60-69'', 0), (''50-59'', 1), (''0-49'', 0)]"
    by (simp add: calculate_quiz_specific_grade_distribution_def ex_simps
        labelled_counts_def mk_range_def)
  show ?thesis
    using grade_distributions_agree [OF t s q] t s q v by simp
qed

text \<open>
  C3. Every percentage of a completed attempt is counted in exactly one of the six
  ranges. The ranges have integer bounds, closed on both sides, so a percentage strictly
  between two of them is counted nowhere: an attempt with 9 marks out of 13 has the
  percentage 900/13, about 69.23, and the distribution of the teacher's quizzes stays at
  zero in every range.
\<close>

theorem fractional_percentage_is_counted_nowhere:
  "status (ex_completed 9 13) = completed
   \<and> percentage (ex_completed 9 13) = Some (900 / 13)
   \<and> calculate_grade_distribution (ex_db_completed 9 13) 7 =
       [(''90-100'', 0), (''80-89'', 0), (''70-79'', 0), (''60-69'', 0), (''50-59'', 0), (''0-49'', 0)]"
  by (simp add: calculate_grade_distribution_def teacher_percentages_def ex_simps
      labelled_counts_def mk_range_def)

text \<open>A whole percentage between 0 and 100 is counted exactly once.\<close>

lemma whole_percentage_is_counted_once:
  assumes "0 \<le> n" and "n \<le> 100" and "percentage a = Some (of_int n)"
  shows "sum_list (map snd (calculate_quiz_specific_grade_distribution [a])) = 1"
proof -
  consider "90 \<le> n" | "80 \<le> n \<and> n < 90" | "70 \<le> n \<and> n < 80" | "60 \<le> n \<and> n < 70"
    | "50 \<le> n \<and> n < 60" | "n < 50"
    by linarith
  then show ?thesis
    using assms
    by cases
      (simp_all add: calculate_quiz_specific_grade_distribution_def labelled_counts_def mk_range_def)
qed

subsection \<open>Finalisation\<close>

text \<open>
  C1. A finalised attempt carries the accumulated totals; when the maximum is positive
  its percentage is total / maximum * 100 and it has passed exactly when the total
  reaches the quiz's passing marks; when the maximum is zero the percentage is 0 and it
  has not passed. The finalised attempt is the one saved.
\<close>

theorem finalize_percentage_and_passed:
  assumes "finalize_attempt now attempt quiz total_sc max_sc correct_cnt incorrect_cnt time_sp d
             = Inr (d', a, res)"
  shows "score a = total_sc \<and> max_score a = max_sc
       \<and> (0 < max_sc \<longrightarrow> percentage a = Some (of_int total_sc / of_int max_sc * 100)
                          \<and> passed a = (passing_marks quiz \<le> total_sc))
       \<and> (max_sc = 0 \<longrightarrow> percentage a = Some 0 \<and> passed a = False)
       \<and> a \<in> set (attempts d')"
  using assms
  by (auto simp: finalize_attempt_def Let_def save_attempt_def split: sum.splits if_splits)

theorem finalize_percentage_and_passed_witness:
  "(\<exists>d' a res. finalize_attempt 5 ex_attempt ex_quiz 5 10 1 1 (JInt 30) ex_db = Inr (d', a, res)
       \<and> percentage a = Some 50 \<and> passed a = False)
   \<and> (\<exists>d' a res. finalize_attempt 5 ex_attempt ex_quiz 0 0 0 0 (JInt 30) ex_db = Inr (d', a, res)
       \<and> percentage a = Some 0 \<and> passed a = False)"
proof -
  obtain d1 a1 r1 where
    h1: "finalize_attempt 5 ex_attempt ex_quiz 5 10 1 1 (JInt 30) ex_db = Inr (d1, a1, r1)"
    by (simp add: finalize_attempt_def Let_def)
  obtain d2 a2 r2 where
    h2: "finalize_attempt 5 ex_attempt ex_quiz 0 0 0 0 (JInt 30) ex_db = Inr (d2, a2, r2)"
    by (simp add: finalize_attempt_def Let_def)
  from finalize_percentage_and_passed [OF h1] finalize_percentage_and_passed [OF h2] h1 h2
  show ?thesis by (simp add: ex_quiz_def)
qed

subsection \<open>Request-level failures\<close>





subsection \<open>Atomicity\<close>

lemma transaction_atomic_rollback:
  "transaction_atomic f d = (Inl e, d') \<Longrightarrow> d' = d"
  by (auto simp: transaction_atomic_def split: sum.splits prod.splits)

lemma process_quiz_submission_rollback:
  "process_quiz_submission now attempt quiz data d = (Inl e, d') \<Longrightarrow> d' = d"
  by (auto simp: process_quiz_submission_def Let_def split: sum.splits
      dest: transaction_atomic_rollback)


lemma fold_least_pk_in:
  "fold (\<lambda>b best. if attempt_id b < attempt_id best then b else best) xs a \<in> set (a # xs)"
proof (induction xs arbitrary: a)
  case Nil
  show ?case by simp
next
  case (Cons x xs)
  from Cons.IH [of x] Cons.IH [of a] show ?case
    by (auto split: if_splits)
qed

lemma first_by_pk_in: "first_by_pk xs = Some a \<Longrightarrow> a \<in> set xs"
  using fold_least_pk_in by (cases xs) auto

lemma get_quiz_attempt_in_progress:
  assumes "get_quiz_attempt d usr quiz = Some a"
  shows "a \<in> set (attempts d) \<and> status a = in_progress \<and> student a = usr
       \<and> attempt_quiz a = quiz_id quiz"
  using first_by_pk_in [OF assms [unfolded get_quiz_attempt_def]] by auto

text \<open>
  C7. The upserts of one submission and the finalisation are one transaction: when
  grading raises an exception that the loop does not tolerate, \<^verbatim>\<open>submit_quiz\<close> answers
  with status 500 and that exception, and the store is the one before the request, so no
  answer written before the failure survives and the attempt is still in progress.
\<close>

theorem submission_is_all_or_nothing:
  assumes "parse_submission_data req = Inr (Some data)"
    and "get_object_or_404 (quizzes d) qid = Inr quiz"
    and "get_quiz_attempt d (user req) quiz = Some attempt"
    and "fst (process_quiz_submission now attempt quiz data d) = Inl e"
  shows "submit_quiz now req qid d = (JsonFailure 500 (An_error_occurred e), d)
       \<and> attempt \<in> set (attempts d) \<and> status attempt = in_progress"
proof -
  obtain r d' where p: "process_quiz_submission now attempt quiz data d = (r, d')"
    by (cases "process_quiz_submission now attempt quiz data d")
  with assms(4) have r: "r = Inl e" by simp
  with p have "d' = d" by (auto dest: process_quiz_submission_rollback)
  with p r assms(1-3) have "submit_quiz now req qid d = (JsonFailure 500 (An_error_occurred e), d)"
    by (simp add: submit_quiz_def)
  with get_quiz_attempt_in_progress [OF assms(3)] show ?thesis by simp
qed

theorem submission_is_all_or_nothing_witness:
  "parse_submission_data
     (ex_request (JObject [(''answers'', ex_overflow_answers), (''time_spent'', JInt 30)]))
     = Inr (Some \<lparr>sd_answers = ex_overflow_answers, sd_time_spent = JInt 30\<rparr>)
   \<and> get_object_or_404 (quizzes ex_db) 1 = Inr ex_quiz
   \<and> get_quiz_attempt ex_db 42 ex_quiz = Some ex_attempt
   \<and> student_answers
       (fst (projr (process_single_answer ex_db ex_attempt ex_quiz ''1'' (JString ''10'')))) \<noteq> []
   \<and> fst (process_quiz_submission 5 ex_attempt ex_quiz
            \<lparr>sd_answers = ex_overflow_answers, sd_time_spent = JInt 30\<rparr> ex_db) = Inl OverflowError
   \<and> submit_quiz 5
       (ex_request (JObject [(''answers'', ex_overflow_answers), (''time_spent'', JInt 30)])) 1 ex_db
       = (JsonFailure 500 (An_error_occurred OverflowError), ex_db)
   \<and> student_answers ex_db = []
   \<and> status ex_attempt = in_progress"
proof -
  let ?req = "ex_request (JObject [(''answers'', ex_overflow_answers), (''time_spent'', JInt 30)])"
  let ?data = "\<lparr>sd_answers = ex_overflow_answers, sd_time_spent = JInt 30\<rparr>"
  have h1: "parse_submission_data ?req = Inr (Some ?data)"
    by (simp add: parse_submission_data_def ex_request_def)
  have h2: "get_object_or_404 (quizzes ex_db) 1 = Inr ex_quiz"
    by (simp add: get_object_or_404_def objects_get_def ex_db_def ex_quiz_def)
  have h3: "get_quiz_attempt ex_db (user ?req) ex_quiz = Some ex_attempt"
    by (simp add: get_quiz_attempt_def ex_simps)
  have w: "student_answers
       (fst (projr (process_single_answer ex_db ex_attempt ex_quiz ''1'' (JString ''10'')))) \<noteq> []"
    by (simp add: process_single_answer_def orm_simps py_int_simps ex_simps)
  have h4: "fst (process_quiz_submission 5 ex_attempt ex_quiz ?data ex_db) = Inl OverflowError"
    by (simp add: ex_overflow_answers_def pipeline_simps orm_simps py_int_simps ex_simps)
  from submission_is_all_or_nothing [OF h1 h2 h3 h4] h1 h2 h3 h4 w
  show ?thesis by (simp add: ex_request_def ex_db_def ex_attempt_def)
qed

subsection \<open>The upsert of student answers\<close>

lemma filter_key_at_most_one:
  "distinct (map f xs) \<Longrightarrow> filter (\<lambda>s. f s = k) xs = [] \<or> (\<exists>x. filter (\<lambda>s. f s = k) xs = [x])"
proof (induction xs)
  case Nil
  show ?case by simp
next
  case (Cons x xs)
  show ?case
  proof (cases "f x = k")
    case True
    with Cons.prems have "\<forall>s \<in> set xs. f s \<noteq> k" by (force simp: image_iff)
    then have "filter (\<lambda>s. f s = k) xs = []" by (simp add: filter_empty_conv)
    with True show ?thesis by simp
  next
    case False
    with Cons show ?thesis by simp
  qed
qed

lemma update_or_create_total:
  assumes "distinct (map sa_key rows)"
  shows "\<exists>rows'. update_or_create rows a q sel c = Inr rows'"
  using filter_key_at_most_one [OF assms, of "(a, q)"]
  by (auto simp: update_or_create_def)

lemma update_or_create_insert:
  assumes "filter (\<lambda>s. sa_key s = (a, q)) rows = []"
  shows "update_or_create rows a q sel c = Inr (rows @ [upserted a q sel c])"
  using assms by (simp add: update_or_create_def upserted_def)

lemma update_or_create_update:
  assumes "filter (\<lambda>s. sa_key s = (a, q)) rows = [x]"
  shows "update_or_create rows a q sel c =
           Inr (map (\<lambda>s. if sa_key s = (a, q) then upserted a q sel c else s) rows)"
proof -
  have "s\<lparr>selected_option := sel, sa_is_correct := c\<rparr> = upserted a q sel c"
    if "sa_key s = (a, q)" for s :: StudentAnswer
    using that by (cases s) (simp add: sa_key_def upserted_def)
  then have "(\<lambda>s. if sa_key s = (a, q) then s\<lparr>selected_option := sel, sa_is_correct := c\<rparr> else s)
           = (\<lambda>s. if sa_key s = (a, q) then upserted a q sel c else s)"
    by auto
  with assms show ?thesis by (simp add: update_or_create_def)
qed

lemma sa_key_upserted [simp]: "sa_key (upserted a q sel c) = (a, q)"
  by (simp add: sa_key_def upserted_def)

lemma update_or_create_post:
  assumes d: "distinct (map sa_key rows)"
    and u: "update_or_create rows a q sel c = Inr rows'"
  shows "distinct (map sa_key rows')
       \<and> filter (\<lambda>s. sa_key s = (a, q)) rows' = [upserted a q sel c]
       \<and> (\<forall>k. k \<noteq> (a, q) \<longrightarrow> filter (\<lambda>s. sa_key s = k) rows' = filter (\<lambda>s. sa_key s = k) rows)
       \<and> length rows' = (if (a, q) \<in> sa_key ` set rows then length rows else length rows + 1)"
proof -
  from filter_key_at_most_one [OF d, of "(a, q)"]
  consider (new) "filter (\<lambda>s. sa_key s = (a, q)) rows = []"
    | (old) x where "filter (\<lambda>s. sa_key s = (a, q)) rows = [x]"
    by blast
  then show ?thesis
  proof cases
    case new
    then have absent: "(a, q) \<notin> sa_key ` set rows"
      by (auto simp: filter_empty_conv)
    from update_or_create_insert [OF new] u have r: "rows' = rows @ [upserted a q sel c]"
      by simp
    from d absent new show ?thesis
      unfolding r by auto
  next
    case old
    let ?f = "\<lambda>s. if sa_key s = (a, q) then upserted a q sel c else s"
    from update_or_create_update [OF old] u have r: "rows' = map ?f rows"
      by simp
    have keys: "map sa_key (map ?f rows) = map sa_key rows"
      by (induction rows) auto
    have present: "(a, q) \<in> sa_key ` set rows"
    proof -
      have "x \<in> set (filter (\<lambda>s. sa_key s = (a, q)) rows)" using old by simp
      then show ?thesis by force
    qed
    have hit: "filter (\<lambda>s. sa_key s = (a, q)) (map ?f rows)
             = map ?f (filter (\<lambda>s. sa_key s = (a, q)) rows)"
      by (induction rows) auto
    have miss: "filter (\<lambda>s. sa_key s = k) (map ?f rows) = filter (\<lambda>s. sa_key s = k) rows"
      if "k \<noteq> (a, q)" for k
      using that by (induction rows) auto
    have x: "sa_key x = (a, q)"
    proof -
      have "x \<in> set (filter (\<lambda>s. sa_key s = (a, q)) rows)" using old by simp
      then show ?thesis by simp
    qed
    have dist: "distinct (map sa_key (map ?f rows))"
      by (simp only: keys d)
    have one: "filter (\<lambda>s. sa_key s = (a, q)) (map ?f rows) = [upserted a q sel c]"
      using hit old x by simp
    from dist one miss present show ?thesis
      unfolding r by simp
  qed
qed

lemma objects_get_sat: "objects_get P rows e = Inr x \<Longrightarrow> P x \<and> x \<in> set rows"
proof -
  assume a: "objects_get P rows e = Inr x"
  then have "filter P rows = [x]"
    by (auto simp: objects_get_def split: list.splits)
  then have "x \<in> set (filter P rows)" by simp
  then show ?thesis by simp
qed

lemma process_single_answer_post:
  assumes inv: "keys_unique d"
    and p: "process_single_answer d attempt quiz k v = Inr (d', r)"
  shows "\<exists>qid oid. py_int (JString k) = Inr qid \<and> py_int v = Inr oid
       \<and> keys_unique d'
       \<and> answers_for d' (attempt_id attempt) qid = [upserted (attempt_id attempt) qid oid (ar_correct r)]
       \<and> (\<forall>a q. (a, q) \<noteq> (attempt_id attempt, qid) \<longrightarrow> answers_for d' a q = answers_for d a q)
       \<and> length (student_answers d') =
           (if answers_for d (attempt_id attempt) qid = [] then length (student_answers d) + 1
            else length (student_answers d))"
proof -
  from p obtain qid question oid selected rows where
    qid: "py_int (JString k) = Inr qid"
    and question: "objects_get (\<lambda>q. question_id q = qid \<and> question_quiz q = quiz_id quiz)
             (questions d) QuestionDoesNotExist = Inr question"
    and oid: "py_int v = Inr oid"
    and selected: "objects_get (\<lambda>opt. option_pk opt = oid \<and> option_question opt = question_id question)
             (options d) OptionDoesNotExist = Inr selected"
    and rows: "update_or_create (student_answers d) (attempt_id attempt) (question_id question)
             (option_pk selected) (is_correct selected) = Inr rows"
    and d': "d' = d\<lparr>student_answers := rows\<rparr>"
    and r: "ar_correct r = is_correct selected"
    by (auto simp: process_single_answer_def split: sum.splits)
  from objects_get_sat [OF question] have q: "question_id question = qid" by simp
  from objects_get_sat [OF selected] have s: "option_pk selected = oid" by simp
  have mem: "answers_for d (attempt_id attempt) qid = [] \<longleftrightarrow>
        (attempt_id attempt, qid) \<notin> sa_key ` set (student_answers d)"
    by (force simp: answers_for_def filter_empty_conv image_iff)
  from update_or_create_post [OF inv [unfolded keys_unique_def] rows] qid oid mem
  show ?thesis
    unfolding d' q s r keys_unique_def answers_for_def by auto
qed

lemma process_single_answer_static:
  assumes "process_single_answer d attempt quiz k v = Inr (d', r)"
  shows "quizzes d' = quizzes d \<and> questions d' = questions d \<and> options d' = options d
       \<and> attempts d' = attempts d"
  using assms by (auto simp: process_single_answer_def split: sum.splits)






lemma process_single_answer_resolve:
  "process_single_answer d attempt quiz k v =
     (case resolve_entry d quiz k v of
        Inl e \<Rightarrow> Inl e
      | Inr (question, selected) \<Rightarrow>
          (case update_or_create (student_answers d) (attempt_id attempt) (question_id question)
                  (option_pk selected) (is_correct selected) of
             Inl e \<Rightarrow> Inl e
           | Inr rows \<Rightarrow> Inr (d\<lparr>student_answers := rows\<rparr>, graded question selected)))"
  unfolding process_single_answer_def resolve_entry_def graded_def
  by (simp only: sum.case_distrib [of "\<lambda>x. case x of Inl e \<Rightarrow> Inl e | Inr (a, b) \<Rightarrow> _ a b"]
      sum.case prod.case cong: sum.case_cong)

lemma resolve_entry_static:
  assumes q: "questions d' = questions d" and o: "options d' = options d"
  shows "resolve_entry d' quiz k v = resolve_entry d quiz k v"
  unfolding resolve_entry_def q o by (rule refl)


lemma process_single_answer_graded:
  assumes "keys_unique d" and "resolve_entry d quiz k v = Inr (question, selected)"
  shows "\<exists>d'. process_single_answer d attempt quiz k v = Inr (d', graded question selected)"
proof -
  from update_or_create_total [OF assms(1) [unfolded keys_unique_def]]
  obtain rows where "update_or_create (student_answers d) (attempt_id attempt)
      (question_id question) (option_pk selected) (is_correct selected) = Inr rows"
    by blast
  with assms(2) show ?thesis by (simp add: process_single_answer_resolve)
qed

lemma process_single_answer_error:
  assumes "keys_unique d" and "resolve_entry d quiz k v = Inl e"
  shows "process_single_answer d attempt quiz k v = Inl e"
  using assms(2) by (simp add: process_single_answer_resolve)








lemmas ex3_simps = ex_aliased_def ex_infinite_option_def ex_negative_time_def ex_bad_time_def

subsection \<open>What the totals count\<close>

lemma entry_result_static:
  assumes "questions d' = questions d" and "options d' = options d"
  shows "entry_result d' quiz kv = entry_result d quiz kv"
  unfolding entry_result_def resolve_entry_static [OF assms] by (rule refl)

text \<open>
  The loop adds, for every entry whose lookups succeed, the marks of its question to the
  maximum and the marks earned to the total, once per entry; an entry whose lookups
  fail adds nothing.
\<close>

lemma answers_loop_tally:
  assumes "keys_unique d"
    and "answers_loop attempt quiz items d t = Inr (d', t')"
  shows "tl_max_score t' = tl_max_score t + sum_list (map (entry_max d quiz) items)
       \<and> total_score t' = total_score t + sum_list (map (entry_score d quiz) items)"
  using assms
proof (induction items arbitrary: d t)
  case Nil
  then show ?case by simp
next
  case (Cons kv items)
  obtain k v where kv: "kv = (k, v)" by (cases kv)
  show ?case
  proof (cases "resolve_entry d quiz k v")
    case (Inl e)
    with Cons.prems(1) have "process_single_answer d attempt quiz k v = Inl e"
      by (rule process_single_answer_error)
    with Cons.prems(2) kv have "answers_loop attempt quiz items d t = Inr (d', t')"
      by (simp split: if_splits)
    from Cons.IH [OF Cons.prems(1) this] Inl kv show ?thesis
      by (simp add: entry_max_def entry_score_def entry_result_def)
  next
    case (Inr qs)
    obtain question selected where qs: "qs = (question, selected)" by (cases qs)
    from process_single_answer_graded [OF Cons.prems(1) Inr [unfolded qs]]
    obtain d1 where p: "process_single_answer d attempt quiz k v = Inr (d1, graded question selected)"
      by blast
    from process_single_answer_post [OF Cons.prems(1) p] have u: "keys_unique d1" by blast
    from process_single_answer_static [OF p]
    have st: "questions d1 = questions d" "options d1 = options d" by simp_all
    have same: "entry_max d1 quiz = entry_max d quiz" "entry_score d1 quiz = entry_score d quiz"
      by (simp_all add: fun_eq_iff entry_max_def entry_score_def entry_result_static [OF st])
    from Cons.prems(2) kv p
    have "answers_loop attempt quiz items d1 (add_result (graded question selected) t) = Inr (d', t')"
      by simp
    from Cons.IH [OF u this] Inr qs kv same show ?thesis
      by (simp add: entry_max_def entry_score_def entry_result_def add_result_def)
  qed
qed

text \<open>When every failing lookup fails with an exception the loop catches, the loop completes.\<close>

lemma answers_loop_completes:
  assumes "keys_unique d"
    and "\<forall>kv \<in> set items. \<forall>e. resolve_entry d quiz (fst kv) (snd kv) = Inl e \<longrightarrow> tolerated e"
  shows "\<exists>d' t'. answers_loop attempt quiz items d t = Inr (d', t')"
  using assms
proof (induction items arbitrary: d t)
  case Nil
  show ?case by simp
next
  case (Cons kv items)
  obtain k v where kv: "kv = (k, v)" by (cases kv)
  from Cons.prems(2) have rest:
    "\<forall>kv \<in> set items. \<forall>e. resolve_entry d quiz (fst kv) (snd kv) = Inl e \<longrightarrow> tolerated e"
    by simp
  show ?case
  proof (cases "resolve_entry d quiz k v")
    case (Inl e)
    with Cons.prems(2) kv have tol: "tolerated e" by simp
    from Cons.prems(1) Inl have "process_single_answer d attempt quiz k v = Inl e"
      by (rule process_single_answer_error)
    with tol kv Cons.IH [OF Cons.prems(1) rest, of t] show ?thesis by simp
  next
    case (Inr qs)
    obtain question selected where qs: "qs = (question, selected)" by (cases qs)
    from process_single_answer_graded [OF Cons.prems(1) Inr [unfolded qs]]
    obtain d1 where p: "process_single_answer d attempt quiz k v = Inr (d1, graded question selected)"
      by blast
    from process_single_answer_post [OF Cons.prems(1) p] have u: "keys_unique d1" by blast
    from process_single_answer_static [OF p]
    have st: "questions d1 = questions d" "options d1 = options d" by simp_all
    from rest have rest1:
      "\<forall>kv \<in> set items. \<forall>e. resolve_entry d1 quiz (fst kv) (snd kv) = Inl e \<longrightarrow> tolerated e"
      unfolding resolve_entry_static [OF st] .
    from Cons.IH [OF u rest1, of "add_result (graded question selected) t"] p kv
    show ?thesis by simp
  qed
qed

text \<open>
  C2. The maximum is the sum of the marks over the answered questions. The loop sums over
  entries, not over questions: Python's \<^verbatim>\<open>int\<close> reads the keys \<^verbatim>\<open>1\<close> and \<^verbatim>\<open>01\<close> as
  the same question, so the submission below has one answered question of 5 marks, one
  stored answer, and yet a maximum and a score of 10, which passes the quiz (passing
  marks 6).
\<close>

theorem aliased_keys_count_a_question_twice:
  "fst (submit_quiz 5 ex_aliased 1 ex_db) =
     JsonSuccess 200 \<lparr>sr_attempt_id = 100, sr_score = 10, sr_max_score = 10,
                      sr_percentage = 100, sr_passed = True\<rparr>
   \<and> student_answers (snd (submit_quiz 5 ex_aliased 1 ex_db)) = [upserted 100 1 10 True]
   \<and> map question_id (questions ex_db) = [1, 2, 3]
   \<and> map marks (questions ex_db) = [5, 5, 4]
   \<and> passing_marks ex_quiz = 6"
  by (simp add: ex3_simps pipeline_simps orm_simps py_int_simps ex_simps upserted_def)

text \<open>
  C5. An entry whose identifiers do not parse is skipped and the submission still
  succeeds. \<^verbatim>\<open>int\<close> of the float infinity raises \<^verbatim>\<open>OverflowError\<close>, which the loop does not
  catch: the submission below fails with status 500 and nothing is stored.
\<close>

theorem infinite_option_aborts_submission:
  "py_int (JFloat PosInf) = Inl OverflowError
   \<and> \<not> tolerated OverflowError
   \<and> submit_quiz 5 ex_infinite_option 1 ex_db
       = (JsonFailure 500 (An_error_occurred OverflowError), ex_db)"
  by (simp add: ex3_simps pipeline_simps orm_simps py_int_simps ex_simps)

subsection \<open>The duration\<close>




subsection \<open>The empty submission\<close>





end
